theory Spec2Isabelle
  imports Main "HOL-Library.Sublist" "HOL-Library.Word"
begin

section \<open>Go values shared by both packages\<close>

text \<open>
  A Go \<open>error\<close> built by \<open>fmt.Errorf(format, args...)\<close> is kept as the call that made it:
  the format string and its arguments, unformatted. \<open>OtherError\<close> is an error made by a
  collaborator outside the modelled files. A function returning \<open>error\<close> returns
  \<open>error option\<close>, \<open>None\<close> being \<open>nil\<close>.
\<close>

datatype fmtarg = Str string | Err error
  and error = Errorf string "fmtarg list" | OtherError string

text \<open>A \<open>reflect.Type\<close> is identified by the name \<open>%T\<close> prints.\<close>

type_synonym gotype = string

definition TAB :: char where
  "TAB = CHR 0x09"

definition NL :: char where
  "NL = CHR 0x0A"

text \<open>\<open>strings.HasPrefix(s, prefix)\<close> and \<open>strings.Contains(s, substr)\<close>.\<close>

definition HasPrefix :: "string \<Rightarrow> string \<Rightarrow> bool" where
  "HasPrefix s pre = prefix pre s"

definition Contains :: "string \<Rightarrow> string \<Rightarrow> bool" where
  "Contains s substr = sublist substr s"

text \<open>
  \<open>strings.Split(s, sep)\<close> for a separator of one character, which is how both call sites
  use it (a newline, a comma): the pieces between the separators, \<open>[""]\<close> for the empty
  string.
\<close>

fun Split :: "string \<Rightarrow> char \<Rightarrow> string list" where
  "Split [] sep = [[]]"
| "Split (x # xs) sep =
     (if x = sep then [] # Split xs sep
      else (case Split xs sep of [] \<Rightarrow> [[x]] | p # ps \<Rightarrow> (x # p) # ps))"

text \<open>\<open>strings.Join(elems, sep)\<close>.\<close>

fun Join :: "string list \<Rightarrow> string \<Rightarrow> string" where
  "Join [] sep = []"
| "Join [a] sep = a"
| "Join (a # b # rest) sep = a @ sep @ Join (b # rest) sep"

section \<open>Package fi: the Context and its Render dispatcher (context.go)\<close>

text \<open>
  Modelled from the spec: the \<open>Lifecycle\<close> type and its constants are declared in another
  file of the package. The spec lists \<open>Sync\<close>, \<open>ExistsAndValidates\<close>, \<open>ExistsAndWarnIfChanges\<close> and
  "(implicitly) others"; Render names two of them.
\<close>

datatype Lifecycle =
    LifecycleSync
  | LifecycleExistsAndValidates
  | LifecycleExistsAndWarnIfChanges
  | LifecycleOther string

text \<open>
  A \<open>reflect.Method\<close>: its name and \<open>method.Type.In(0..NumIn-1)\<close>, the parameter types with
  the receiver first.
\<close>

record Method =
  Name :: string
  In :: "gotype list"

text \<open>
  A non-nil \<open>Task\<close> interface value as Render reads it. Every task is a pointer to a
  struct: \<open>ptr\<close> is the struct pointed to, \<open>None\<close> for a nil pointer, so that
  \<open>reflect.ValueOf(t).IsNil()\<close> is \<open>ptr t = None\<close>. \<open>GoType\<close> is the dynamic type,
  \<open>Methods\<close> its exported method set in the order of \<open>Type.Method(i)\<close>. \<open>HasLifecycle\<close> is
  \<open>None\<close> when the type does not implement the interface of that name, and otherwise holds
  what \<open>GetLifecycle()\<close> returns (a pointer, \<open>None\<close> for nil). A \<open>Task\<close> argument of Render
  is a \<open>'v Task option\<close>, \<open>None\<close> being the nil interface.
\<close>

record 'v Task =
  GoType :: gotype
  ptr :: "'v option"
  Methods :: "Method list"
  HasLifecycle :: "Lifecycle option option"

text \<open>The \<open>Target\<close> interface: the dry-run target, or a target of some other type.\<close>

datatype Target = DryRunTarget | OtherTarget gotype

fun TargetType :: "Target \<Rightarrow> gotype" where
  "TargetType DryRunTarget = ''*fi.DryRunTarget''"
| "TargetType (OtherTarget t) = t"

text \<open>
  The \<open>Context\<close> struct. Its other fields (DNS, Cloud, Keystore, SecretStore,
  ClusterConfigBase, CheckExisting, tasks) are handles that Render and Close never read.
\<close>

record Context =
  Tmpdir :: string
  Target :: "Target option"

definition typeContextPtr :: gotype where
  "typeContextPtr = ''*fi.Context''"

text \<open>A \<open>reflect.Value\<close> handed to a routine.\<close>

datatype 'v Value =
    ValContext Context
  | ValTarget "Target option"
  | ValTask "'v Task option"

text \<open>
  What the code does to the world, in order: a write to \<open>os.Stderr\<close>, a call of
  \<open>DryRunTarget.Render\<close>, a call \<open>v.MethodByName(name).Call(args)\<close>, calls of glog (kept as
  calls, with the verbosity level for \<open>glog.V(n).Infof\<close>), and \<open>os.RemoveAll\<close>.
\<close>

datatype 'v event =
    Stderr string
  | DryRunRender "'v Task option" "'v Task option" "'v Task option"
  | MethodCall string "'v Value list"
  | GlogV nat string "fmtarg list"
  | GlogWarning string "fmtarg list"
  | OsRemoveAll string

datatype result = Return "error option" | Panic

datatype CallResult = Returns "error option" | CallPanics

record change =
  FieldName :: string
  Description :: string

text \<open>
  What Render uses and context.go does not define: \<open>reflect.Type.ConvertibleTo\<close>, the
  package's \<open>buildChangeList\<close> and \<open>getTaskName\<close>, and the behaviour of a task's method
  under \<open>reflect.Value.Call\<close> (the error in \<open>rv[0]\<close>, or a panic).
\<close>

record 'v deps =
  ConvertibleTo :: "gotype \<Rightarrow> gotype \<Rightarrow> bool"
  buildChangeList :: "'v Task option \<Rightarrow> 'v Task option \<Rightarrow> 'v Task option \<Rightarrow> error + change list"
  getTaskName :: "'v Task option \<Rightarrow> string"
  Call :: "'v Task \<Rightarrow> string \<Rightarrow> 'v Value list \<Rightarrow> CallResult"

subsection \<open>Close\<close>

text \<open>
  \<open>Close\<close> has no result in Go; the model returns what it did. \<open>RemoveAll\<close> is the result
  of \<open>os.RemoveAll\<close> on a path.
\<close>

definition Close :: "(string \<Rightarrow> error option) \<Rightarrow> Context \<Rightarrow> 'v event list" where
  "Close RemoveAll c =
     GlogV 2 ''deleting temp dir: %q'' [Str (Tmpdir c)] #
     (if Tmpdir c \<noteq> [] then
        OsRemoveAll (Tmpdir c) #
        (case RemoveAll (Tmpdir c) of
           None \<Rightarrow> []
         | Some err \<Rightarrow>
             [GlogWarning ''unable to delete temporary directory %q: %v'' [Str (Tmpdir c), Err err]])
      else [])"

subsection \<open>The lifecycle report\<close>

text \<open>
  The verb \<open>%-20s\<close>: left-justified, padded with spaces to 20 characters. Go counts
  code points here; a \<open>char\<close> of the model stands for one.
\<close>

definition pad20 :: "string \<Rightarrow> string" where
  "pad20 s = s @ replicate (20 - length s) CHR '' ''"

definition changeText :: "change \<Rightarrow> string" where
  "changeText c =
     (let lines = Split (Description c) NL in
      if length lines = 1 then
        ''  '' @ [TAB] @ pad20 (FieldName c) @ [TAB] @ Description c @ [NL]
      else
        ''  '' @ [TAB] @ pad20 (FieldName c) @ [NL] @
        concat (map (\<lambda>line. ''  '' @ [TAB] @ pad20 [] @ [TAB] @ line @ [NL]) lines))"

definition report :: "string \<Rightarrow> change list \<Rightarrow> string" where
  "report taskName changeList =
     ''Object from different phase did not match, problems possible:'' @ [NL] @
     ''  '' @ taskName @ ''/'' @ ''?'' @ [NL] @
     concat (map changeText changeList) @
     [NL]"

subsection \<open>Render\<close>

text \<open>The pointer \<open>lifecycle\<close> after lines 103-106.\<close>

definition lifecycleOf :: "'v Task option \<Rightarrow> Lifecycle option" where
  "lifecycleOf e =
     (case e of
        None \<Rightarrow> None
      | Some te \<Rightarrow> (case HasLifecycle te of None \<Rightarrow> None | Some l \<Rightarrow> l))"

text \<open>
  Lines 108-152: \<open>Some\<close> of what Render does when it returns (or panics) there, \<open>None\<close>
  when control falls through to line 154.
\<close>

definition lifecycleCheck ::
  "'v deps \<Rightarrow> 'v Task option \<Rightarrow> 'v Task option \<Rightarrow> 'v Task option \<Rightarrow> ('v event list \<times> result) option" where
  "lifecycleCheck d a e changes =
     (case lifecycleOf e of
        None \<Rightarrow> None
      | Some lifecycle \<Rightarrow>
          (case a of
             None \<Rightarrow> Some ([], Panic)
           | Some ta \<Rightarrow>
               if ptr ta = None then
                 (case lifecycle of
                    LifecycleExistsAndValidates \<Rightarrow>
                      Some ([], Return (Some (Errorf ''Lifecycle set to ExistsAndValidates, but object was not found'' [])))
                  | LifecycleExistsAndWarnIfChanges \<Rightarrow>
                      Some ([], Return (Some (Errorf ''Lifecycle set to ExistsAndWarnIfChanges, but object was not found'' [])))
                  | _ \<Rightarrow> None)
               else
                 (if lifecycle = LifecycleExistsAndValidates \<or> lifecycle = LifecycleExistsAndWarnIfChanges then
                    (case buildChangeList d a e changes of
                       Inl err \<Rightarrow> Some ([], Return (Some err))
                     | Inr changeList \<Rightarrow>
                         Some ([Stderr (report (getTaskName d e) changeList)],
                               if lifecycle = LifecycleExistsAndValidates then
                                 Return (Some (Errorf ''Lifecycle set to ExistsAndValidates, but object did not match'' []))
                               else Return None))
                  else None)))"

text \<open>
  Modelled from the spec: \<open>DryRunTarget.Render\<close> is defined in another file of the package. The
  spec: "record (actual, expected, changes) and return success".
\<close>

definition DryRunTarget_Render ::
  "'v Task option \<Rightarrow> 'v Task option \<Rightarrow> 'v Task option \<Rightarrow> 'v event list \<times> result" where
  "DryRunTarget_Render a e changes = ([DryRunRender a e changes], Return None)"

text \<open>
  The inner loop, lines 174-189, over the parameter types still to check: the arguments
  collected, or \<open>None\<close> when \<open>match\<close> becomes false.
\<close>

fun matchArgs ::
  "'v deps \<Rightarrow> Context \<Rightarrow> gotype \<Rightarrow> gotype \<Rightarrow> gotype list \<Rightarrow> 'v Value list \<Rightarrow> 'v Value list option" where
  "matchArgs d c vType targetType [] args = Some args"
| "matchArgs d c vType targetType (arg # rest) args =
     (if ConvertibleTo d arg vType then matchArgs d c vType targetType rest args
      else if ConvertibleTo d arg typeContextPtr then
        matchArgs d c vType targetType rest (args @ [ValContext c])
      else if ConvertibleTo d arg targetType then
        matchArgs d c vType targetType rest (args @ [ValTarget (Target c)])
      else None)"

text \<open>
  The outer loop, lines 166-198, over the methods still to visit, with \<open>renderer\<close> and
  \<open>rendererArgs\<close> as found so far.
\<close>

fun findRenderer ::
  "'v deps \<Rightarrow> Context \<Rightarrow> gotype \<Rightarrow> gotype \<Rightarrow> Method list \<Rightarrow> (Method \<times> 'v Value list) option
   \<Rightarrow> error + (Method \<times> 'v Value list) option" where
  "findRenderer d c vType targetType [] renderer = Inr renderer"
| "findRenderer d c vType targetType (method # ms) renderer =
     (if \<not> HasPrefix (Name method) ''Render'' then findRenderer d c vType targetType ms renderer
      else
        (case matchArgs d c vType targetType (In method) [] of
           None \<Rightarrow> findRenderer d c vType targetType ms renderer
         | Some args \<Rightarrow>
             (case renderer of
                Some r \<Rightarrow>
                  Inl (Errorf ''Found multiple Render methods that could be invokved on %T'' [Str vType])
              | None \<Rightarrow> findRenderer d c vType targetType ms (Some (method, args)))))"

text \<open>
  Lines 154-212. \<open>v.Type()\<close> panics on the nil interface, and so does
  \<open>reflect.ValueOf(c.Target).Type()\<close>.
\<close>

definition dispatch ::
  "'v deps \<Rightarrow> Context \<Rightarrow> 'v Task option \<Rightarrow> 'v Task option \<Rightarrow> 'v Task option \<Rightarrow> 'v event list \<times> result" where
  "dispatch d c a e changes =
     (case Target c of
        Some DryRunTarget \<Rightarrow> DryRunTarget_Render a e changes
      | None \<Rightarrow> ([], Panic)
      | Some (OtherTarget tt) \<Rightarrow>
          (case e of
             None \<Rightarrow> ([], Panic)
           | Some te \<Rightarrow>
               (case findRenderer d c (GoType te) tt (Methods te) None of
                  Inl err \<Rightarrow> ([], Return (Some err))
                | Inr None \<Rightarrow>
                    ([], Return (Some (Errorf ''Could not find Render method on type %T (target %T)''
                                         [Str (GoType te), Str tt])))
                | Inr (Some (renderer, rendererArgs)) \<Rightarrow>
                    (let rendererArgs = rendererArgs @ [ValTask a, ValTask e, ValTask changes] in
                     ([GlogV 11 ''Calling method %s on %T'' [Str (Name renderer), Str (GoType te)],
                       MethodCall (Name renderer) rendererArgs],
                      (case Call d te (Name renderer) rendererArgs of
                         Returns rvErr \<Rightarrow> Return rvErr
                       | CallPanics \<Rightarrow> Panic))))))"

definition Render ::
  "'v deps \<Rightarrow> Context \<Rightarrow> 'v Task option \<Rightarrow> 'v Task option \<Rightarrow> 'v Task option \<Rightarrow> 'v event list \<times> result" where
  "Render d c a e changes =
     (case lifecycleCheck d a e changes of
        Some out \<Rightarrow> out
      | None \<Rightarrow> dispatch d c a e changes)"

section \<open>Package cloudup: populating the cluster spec\<close>

text \<open>
  The structs are declared in package kops; the records hold the
  fields the code names. \<open>rest\<close> stands for all the other fields of \<open>ClusterSpec\<close> (the
  subnets among them). A pointer field is an \<open>option\<close>, \<open>None\<close> for nil.
  \<open>ObjectMeta_Name\<close> is \<open>c.ObjectMeta.Name\<close>.
\<close>

record EgressProxySpec =
  ProxyExcludes :: string

record TopologySpec =
  Masters :: string
  Nodes :: string

record 'x ClusterSpec =
  NetworkID :: string
  NetworkCIDR :: string
  NonMasqueradeCIDR :: string
  MasterPublicName :: string
  ClusterDNSDomain :: string
  CloudProvider :: string
  KubernetesVersion :: string
  Channel :: string
  Topology :: "TopologySpec option"
  EgressProxy :: "EgressProxySpec option"
  rest :: 'x

record 'x Cluster =
  ObjectMeta_Name :: string
  Spec :: "'x ClusterSpec"

record VPCInfo =
  CIDR :: string

text \<open>A \<open>net.IP\<close> is a slice of bytes; a \<open>net.IPNet\<close> is an address and a mask.\<close>

record IPNet =
  NetIP :: "8 word list"
  Mask :: "8 word list"

text \<open>
  What this code calls and does not define: \<open>BuildCloud\<close>, \<open>Cluster.SharedVPC\<close>,
  \<open>Cloud.FindVPCInfo\<close>, the constant \<open>kops.TopologyPublic\<close>, \<open>assignCIDRsToSubnets\<close> (which
  returns an error and may change the cluster it is given), \<open>net.ParseCIDR\<close>,
  \<open>IPNet.Contains\<close>, \<open>IP.String\<close>, \<open>kops.LoadChannel\<close>,
  \<open>kops.RecommendedKubernetesVersion\<close> followed by \<open>String()\<close>, the constant
  \<open>kopsversion.Version\<close>, \<open>vfs.Context.ReadFile\<close> and \<open>strings.TrimSpace\<close>. The calls of
  glog in this package only write to the log and are left out.
\<close>

record ('x, 'cloud, 'chan) env =
  BuildCloud :: "'x Cluster \<Rightarrow> error + 'cloud"
  SharedVPC :: "'x Cluster \<Rightarrow> bool"
  FindVPCInfo :: "'cloud \<Rightarrow> string \<Rightarrow> error + VPCInfo option"
  TopologyPublic :: string
  assignCIDRsToSubnets :: "'x Cluster \<Rightarrow> error option \<times> 'x Cluster"
  ParseCIDR :: "string \<Rightarrow> error + (8 word list \<times> IPNet)"
  IPNet_Contains :: "IPNet \<Rightarrow> 8 word list \<Rightarrow> bool"
  IP_String :: "8 word list \<Rightarrow> string"
  LoadChannel :: "string \<Rightarrow> error + 'chan"
  RecommendedKubernetesVersion :: "'chan \<Rightarrow> string \<Rightarrow> string option"
  Version :: string
  ReadFile :: "string \<Rightarrow> error + string"
  TrimSpace :: "string \<Rightarrow> string"

subsection \<open>incrementIP\<close>

text \<open>
  The loop of lines 209-214 on the bytes in reverse order: add one to the last byte, and
  carry on to the next while the byte wrapped to zero.
\<close>

fun incrementBytes :: "8 word list \<Rightarrow> 8 word list" where
  "incrementBytes [] = []"
| "incrementBytes (b # bs) =
     (if b + 1 \<noteq> 0 then (b + 1) # bs else (b + 1) # incrementBytes bs)"

definition incrementIP :: "('x, 'cloud, 'chan) env \<Rightarrow> 8 word list \<Rightarrow> string \<Rightarrow> error + string" where
  "incrementIP env ip cidr =
     (case ParseCIDR env cidr of
        Inl err \<Rightarrow> Inl err
      | Inr (_, ipNet) \<Rightarrow>
          (let ip = rev (incrementBytes (rev ip)) in
           if \<not> IPNet_Contains env ipNet ip then
             Inl (Errorf ''overflowed CIDR while incrementing IP'' [])
           else Inr (IP_String env ip)))"

subsection \<open>assignProxy\<close>

text \<open>
  The loop of lines 162-177 over the excludes still to visit; \<open>excludes\<close> is
  \<open>egressProxy.ProxyExcludes\<close>, which the loop does not change.
\<close>

fun addExcludes :: "string \<Rightarrow> string list \<Rightarrow> string list \<Rightarrow> string list" where
  "addExcludes excludes [] egressSlice = egressSlice"
| "addExcludes excludes (exclude # others) egressSlice =
     (if exclude = [] then addExcludes excludes others egressSlice
      else if \<not> Contains excludes exclude then addExcludes excludes others (egressSlice @ [exclude])
      else addExcludes excludes others egressSlice)"

text \<open>
  \<open>assignProxy\<close> returns its two results and the cluster as it leaves it: the write of
  line 195 goes through the pointer \<open>cluster.Spec.EgressProxy\<close>.
\<close>

definition assignProxy ::
  "('x, 'cloud, 'chan) env \<Rightarrow> 'x Cluster \<Rightarrow> (error + EgressProxySpec option) \<times> 'x Cluster" where
  "assignProxy env cluster =
     (case EgressProxy (Spec cluster) of
        None \<Rightarrow> (Inr None, cluster)
      | Some egressProxy \<Rightarrow>
          (let egressSlice =
                 (if ProxyExcludes egressProxy \<noteq> [] then Split (ProxyExcludes egressProxy) CHR '','' else [])
           in
           case ParseCIDR env (NonMasqueradeCIDR (Spec cluster)) of
             Inl err \<Rightarrow> (Inl (Errorf ''unable to parse Non Masquerade CIDR'' []), cluster)
           | Inr (ip, _) \<Rightarrow>
               (case incrementIP env ip (NonMasqueradeCIDR (Spec cluster)) of
                  Inl err \<Rightarrow>
                    (Inl (Errorf ''unable to get first ip address in Non Masquerade CIDR'' []), cluster)
                | Inr firstIP \<Rightarrow>
                    (let egressSlice =
                           addExcludes (ProxyExcludes egressProxy)
                             [''127.0.0.1'',
                              ''localhost'',
                              ClusterDNSDomain (Spec cluster),
                              MasterPublicName (Spec cluster),
                              ObjectMeta_Name cluster,
                              firstIP,
                              NonMasqueradeCIDR (Spec cluster)]
                             egressSlice;
                         awsNoProxy = ''169.254.169.254'';
                         egressSlice =
                           (if CloudProvider (Spec cluster) = ''aws''
                               \<and> \<not> Contains (ProxyExcludes egressProxy) awsNoProxy
                            then egressSlice @ [awsNoProxy] else egressSlice);
                         egressSlice =
                           (if NetworkCIDR (Spec cluster) \<noteq> [] then
                              (if \<not> Contains (ProxyExcludes egressProxy) (NetworkCIDR (Spec cluster))
                               then egressSlice @ [NetworkCIDR (Spec cluster)] else egressSlice)
                            else egressSlice);
                         egressProxy = egressProxy\<lparr>ProxyExcludes := Join egressSlice '',''\<rparr>
                     in (Inr (Some egressProxy),
                         cluster\<lparr>Spec := (Spec cluster)\<lparr>EgressProxy := Some egressProxy\<rparr>\<rparr>)))))"

subsection \<open>ensureKubernetesVersion\<close>

definition FindLatestKubernetesVersion :: "('x, 'cloud, 'chan) env \<Rightarrow> error + string" where
  "FindLatestKubernetesVersion env =
     (let stableURL = ''https://storage.googleapis.com/kubernetes-release/release/stable.txt'' in
      case ReadFile env stableURL of
        Inl err \<Rightarrow>
          Inl (Errorf ''KubernetesVersion not specified, and unable to download latest version from %q: %v''
                 [Str stableURL, Err err])
      | Inr b \<Rightarrow> Inr (TrimSpace env b))"

text \<open>Lines 97-113: the version taken from the channel, or the error of loading it.\<close>

definition versionFromChannel :: "('x, 'cloud, 'chan) env \<Rightarrow> 'x Cluster \<Rightarrow> error + 'x Cluster" where
  "versionFromChannel env c =
     (if KubernetesVersion (Spec c) = [] then
        (if Channel (Spec c) \<noteq> [] then
           (case LoadChannel env (Channel (Spec c)) of
              Inl err \<Rightarrow> Inl err
            | Inr channel \<Rightarrow>
                (case RecommendedKubernetesVersion env channel (Version env) of
                   Some kubernetesVersion \<Rightarrow>
                     Inr (c\<lparr>Spec := (Spec c)\<lparr>KubernetesVersion := kubernetesVersion\<rparr>\<rparr>)
                 | None \<Rightarrow> Inr c))
         else Inr c)
      else Inr c)"

definition ensureKubernetesVersion ::
  "('x, 'cloud, 'chan) env \<Rightarrow> 'x Cluster \<Rightarrow> error option \<times> 'x Cluster" where
  "ensureKubernetesVersion env c =
     (case versionFromChannel env c of
        Inl err \<Rightarrow> (Some err, c)
      | Inr c \<Rightarrow>
          (if KubernetesVersion (Spec c) = [] then
             (case FindLatestKubernetesVersion env of
                Inl err \<Rightarrow> (Some err, c)
              | Inr latestVersion \<Rightarrow>
                  (None, c\<lparr>Spec := (Spec c)\<lparr>KubernetesVersion := latestVersion\<rparr>\<rparr>))
           else (None, c)))"

subsection \<open>PerformAssignments\<close>

text \<open>Lines 46-58.\<close>

definition networkCIDRFromVPC ::
  "('x, 'cloud, 'chan) env \<Rightarrow> 'cloud \<Rightarrow> 'x Cluster \<Rightarrow> error option \<times> 'x Cluster" where
  "networkCIDRFromVPC env cloud c =
     (if SharedVPC env c \<and> NetworkCIDR (Spec c) = [] then
        (case FindVPCInfo env cloud (NetworkID (Spec c)) of
           Inl err \<Rightarrow> (Some err, c)
         | Inr None \<Rightarrow> (Some (Errorf ''unable to find VPC ID %q'' [Str (NetworkID (Spec c))]), c)
         | Inr (Some vpcInfo) \<Rightarrow>
             (let c = c\<lparr>Spec := (Spec c)\<lparr>NetworkCIDR := CIDR vpcInfo\<rparr>\<rparr> in
              if NetworkCIDR (Spec c) = [] then
                (Some (Errorf ''Unable to infer NetworkCIDR from VPC ID, please specify --network-cidr'' []), c)
              else (None, c)))
      else (None, c))"

text \<open>Lines 62-78.\<close>

definition assignDefaults :: "('x, 'cloud, 'chan) env \<Rightarrow> 'x Cluster \<Rightarrow> 'x Cluster" where
  "assignDefaults env c =
     (let c = (if Topology (Spec c) = None then
                 c\<lparr>Spec := (Spec c)\<lparr>Topology :=
                      Some \<lparr>Masters = TopologyPublic env, Nodes = TopologyPublic env\<rparr>\<rparr>\<rparr>
               else c);
          c = (if NetworkCIDR (Spec c) = [] \<and> \<not> SharedVPC env c then
                 c\<lparr>Spec := (Spec c)\<lparr>NetworkCIDR := ''172.20.0.0/16''\<rparr>\<rparr>
               else c);
          c = (if NonMasqueradeCIDR (Spec c) = [] then
                 c\<lparr>Spec := (Spec c)\<lparr>NonMasqueradeCIDR := ''100.64.0.0/10''\<rparr>\<rparr>
               else c);
          c = (if MasterPublicName (Spec c) = [] \<and> ObjectMeta_Name c \<noteq> [] then
                 c\<lparr>Spec := (Spec c)\<lparr>MasterPublicName := ''api.'' @ ObjectMeta_Name c\<rparr>\<rparr>
               else c)
      in c)"

text \<open>
  \<open>PerformAssignments\<close> returns its error and the cluster as it leaves it. Line 86 stores
  the first result of \<open>assignProxy\<close> before looking at the error, so a failing
  \<open>assignProxy\<close> leaves \<open>EgressProxy\<close> nil.
\<close>

definition PerformAssignments ::
  "('x, 'cloud, 'chan) env \<Rightarrow> 'x Cluster \<Rightarrow> error option \<times> 'x Cluster" where
  "PerformAssignments env c =
     (case BuildCloud env c of
        Inl err \<Rightarrow> (Some err, c)
      | Inr cloud \<Rightarrow>
          (case networkCIDRFromVPC env cloud c of
             (Some err, c) \<Rightarrow> (Some err, c)
           | (None, c) \<Rightarrow>
               (case assignCIDRsToSubnets env (assignDefaults env c) of
                  (Some err, c) \<Rightarrow> (Some err, c)
                | (None, c) \<Rightarrow>
                    (case assignProxy env c of
                       (Inl err, c) \<Rightarrow> (Some err, c\<lparr>Spec := (Spec c)\<lparr>EgressProxy := None\<rparr>\<rparr>)
                     | (Inr egressProxy, c) \<Rightarrow>
                         ensureKubernetesVersion env (c\<lparr>Spec := (Spec c)\<lparr>EgressProxy := egressProxy\<rparr>\<rparr>)))))"

section \<open>Definitions that follow the wording of the specification\<close>

text \<open>
  A method matches when its name begins with \<open>Render\<close> and every parameter is convertible
  to the task's own type, to the Context type or to the type of the active Target.
\<close>

definition matching :: "'v deps \<Rightarrow> gotype \<Rightarrow> gotype \<Rightarrow> Method \<Rightarrow> bool" where
  "matching d vType targetType m =
     (HasPrefix (Name m) ''Render'' \<and>
      list_all (\<lambda>arg. ConvertibleTo d arg vType \<or> ConvertibleTo d arg typeContextPtr
                      \<or> ConvertibleTo d arg targetType) (In m))"

text \<open>
  The arguments resolved for a method that matches: its parameters in their order, those
  convertible to the task's own type left out, a parameter convertible to the Context
  type bound to the running Context and any other bound to the active Target.
\<close>

definition resolvedArgs :: "'v deps \<Rightarrow> Context \<Rightarrow> gotype \<Rightarrow> gotype list \<Rightarrow> 'v Value list" where
  "resolvedArgs d c vType ins =
     map (\<lambda>arg. if ConvertibleTo d arg typeContextPtr then ValContext c else ValTarget (Target c))
       (filter (\<lambda>arg. \<not> ConvertibleTo d arg vType) ins)"

text \<open>
  The line the specification gives for a changed field with a one-line description:
  two spaces, a tab, the field, a tab, the description.
\<close>

definition specFieldLine :: "string \<Rightarrow> string \<Rightarrow> string" where
  "specFieldLine field description = ''  '' @ [TAB] @ field @ [TAB] @ description"

text \<open>
  The lines of the report as the code writes them: for a changed field whose description
  holds no newline, one line with the field name padded to 20 characters; otherwise the
  padded field name on a line of its own, then one line for each line of the description
  behind 20 spaces. The report is a title, the task name followed by \<open>/?\<close>, the lines of
  the changed fields, and an empty line.
\<close>

definition changeLines :: "change \<Rightarrow> string list" where
  "changeLines c =
     (if NL \<notin> set (Description c) then
        [''  '' @ [TAB] @ pad20 (FieldName c) @ [TAB] @ Description c]
      else
        (''  '' @ [TAB] @ pad20 (FieldName c)) #
        map (\<lambda>line. ''  '' @ [TAB] @ replicate 20 CHR '' '' @ [TAB] @ line) (Split (Description c) NL))"

definition reportLines :: "string \<Rightarrow> change list \<Rightarrow> string list" where
  "reportLines taskName changeList =
     [''Object from different phase did not match, problems possible:'',
      ''  '' @ taskName @ ''/'' @ ''?''] @
     concat (map changeLines changeList) @
     [[]]"

text \<open>
  The excludes string after every candidate it does not contain has been appended, and
  the candidates of \<open>assignProxy\<close>: the non-empty ones of its list, the AWS metadata
  address for the provider \<open>aws\<close>, and the network CIDR when there is one.
\<close>

definition proxyExcludesOf :: "string \<Rightarrow> string list \<Rightarrow> string" where
  "proxyExcludesOf excludes candidates =
     Join ((if excludes \<noteq> [] then Split excludes CHR '','' else []) @
           filter (\<lambda>exclude. \<not> Contains excludes exclude) candidates) '',''"

definition excludeCandidates :: "'x Cluster \<Rightarrow> string \<Rightarrow> string list" where
  "excludeCandidates cluster firstIP =
     filter (\<lambda>exclude. exclude \<noteq> [])
       [''127.0.0.1'',
        ''localhost'',
        ClusterDNSDomain (Spec cluster),
        MasterPublicName (Spec cluster),
        ObjectMeta_Name cluster,
        firstIP,
        NonMasqueradeCIDR (Spec cluster)] @
     (if CloudProvider (Spec cluster) = ''aws'' then [''169.254.169.254''] else []) @
     (if NetworkCIDR (Spec cluster) \<noteq> [] then [NetworkCIDR (Spec cluster)] else [])"

section \<open>Example values\<close>

text \<open>
  A subnet task with a routine for each of two targets, types convertible only to
  themselves, a change list of one field, and a routine that fails.
\<close>

definition exDeps :: "string deps" where
  "exDeps =
     \<lparr>ConvertibleTo = (\<lambda>t u. t = u),
      buildChangeList = (\<lambda>a e changes. Inr [\<lparr>FieldName = ''Name'', Description = '' foo -> bar''\<rparr>]),
      getTaskName = (\<lambda>e. ''subnet''),
      Call = (\<lambda>t name args. Returns (Some (OtherError ''RequestLimitExceeded'')))\<rparr>"

definition exMethods :: "Method list" where
  "exMethods =
     [\<lparr>Name = ''CheckChanges'', In = [''*Subnet'', ''*Subnet'', ''*Subnet'', ''*Subnet'']\<rparr>,
      \<lparr>Name = ''RenderAWS'', In = [''*Subnet'', ''*AWSAPITarget'', ''*Subnet'', ''*Subnet'', ''*Subnet'']\<rparr>,
      \<lparr>Name = ''RenderTerraform'', In = [''*Subnet'', ''*TerraformTarget'', ''*Subnet'', ''*Subnet'', ''*Subnet'']\<rparr>]"

definition exTask :: "string option \<Rightarrow> Lifecycle option option \<Rightarrow> string Task" where
  "exTask p l = \<lparr>GoType = ''*Subnet'', ptr = p, Methods = exMethods, HasLifecycle = l\<rparr>"

definition exContext :: "Target \<Rightarrow> Context" where
  "exContext t = \<lparr>Tmpdir = ''/tmp/deploy1'', Target = Some t\<rparr>"

text \<open>Two routines that both match the AWS target: one takes the target, one the Context.\<close>

definition exAmbiguous :: "Method list" where
  "exAmbiguous =
     [\<lparr>Name = ''RenderAWS'', In = [''*Subnet'', ''*AWSAPITarget'', ''*Subnet'', ''*Subnet'', ''*Subnet'']\<rparr>,
      \<lparr>Name = ''RenderAny'', In = [''*Subnet'', ''*fi.Context'', ''*Subnet'', ''*Subnet'', ''*Subnet'']\<rparr>]"

text \<open>A routine that takes the target and then the Context.\<close>

definition exBoth :: "Method list" where
  "exBoth =
     [\<lparr>Name = ''CheckChanges'', In = [''*Subnet'', ''*Subnet'', ''*Subnet'', ''*Subnet'']\<rparr>,
      \<lparr>Name = ''Render'',
       In = [''*Subnet'', ''*AWSAPITarget'', ''*fi.Context'', ''*Subnet'', ''*Subnet'', ''*Subnet'']\<rparr>]"

text \<open>
  A cluster on AWS with all five assigned fields set and a proxy that excludes one
  host, in an environment whose collaborators succeed; \<open>exExcludes\<close> is the excludes
  string \<open>assignProxy\<close> makes of it.
\<close>

definition exEnv :: "(unit, unit, unit) env" where
  "exEnv =
     \<lparr>BuildCloud = (\<lambda>c. Inr ()),
      SharedVPC = (\<lambda>c. NetworkID (Spec c) \<noteq> []),
      FindVPCInfo = (\<lambda>cloud id. Inr (Some \<lparr>CIDR = ''10.0.0.0/16''\<rparr>)),
      TopologyPublic = ''public'',
      assignCIDRsToSubnets = (\<lambda>c. (None, c)),
      ParseCIDR = (\<lambda>s. if s = ''100.64.0.0/10''
                         then Inr ([100, 64, 0, 0], \<lparr>NetIP = [100, 64, 0, 0], Mask = [255, 192, 0, 0]\<rparr>)
                         else Inl (OtherError ''invalid CIDR address'')),
      IPNet_Contains = (\<lambda>n ip. take 1 ip = take 1 (NetIP n)),
      IP_String = (\<lambda>ip. if ip = [100, 64, 0, 1] then ''100.64.0.1'' else ''other''),
      LoadChannel = (\<lambda>location. Inr ()),
      RecommendedKubernetesVersion = (\<lambda>channel version. Some ''1.6.2''),
      Version = ''1.6.0'',
      ReadFile = (\<lambda>location. Inr ''v1.6.2''),
      TrimSpace = (\<lambda>s. s)\<rparr>"

definition exCluster :: "string \<Rightarrow> unit Cluster" where
  "exCluster excludes =
     \<lparr>ObjectMeta_Name = ''k.example.com'',
      Spec = \<lparr>NetworkID = [],
              NetworkCIDR = ''172.20.0.0/16'',
              NonMasqueradeCIDR = ''100.64.0.0/10'',
              MasterPublicName = ''api.k.example.com'',
              ClusterDNSDomain = ''cluster.local'',
              CloudProvider = ''aws'',
              KubernetesVersion = ''1.6.2'',
              Channel = ''stable'',
              Topology = Some \<lparr>Masters = ''private'', Nodes = ''private''\<rparr>,
              EgressProxy = Some \<lparr>ProxyExcludes = excludes\<rparr>,
              rest = ()\<rparr>\<rparr>"

definition exExcludes :: string where
  "exExcludes = ''example.org,127.0.0.1,localhost,cluster.local,api.k.example.com,k.example.com,100.64.0.1,100.64.0.0/10,169.254.169.254,172.20.0.0/16''"

section \<open>Theorems about package fi\<close>

subsection \<open>Close\<close>

text \<open>
  C8. For every Context with a non-empty \<open>Tmpdir\<close>, \<open>Close\<close> attempts the recursive
  removal of that directory, and when the removal fails it logs a warning carrying that
  error. \<open>Close\<close> has no result, so nothing is propagated: all it does is the list of
  events, which holds no other removal than that of \<open>Tmpdir\<close>.
\<close>

theorem Close_best_effort:
  "Tmpdir c \<noteq> [] \<Longrightarrow>
     OsRemoveAll (Tmpdir c) \<in> set (Close RemoveAll c :: 'v event list) \<and>
     (\<forall>err. RemoveAll (Tmpdir c) = Some err \<longrightarrow>
        GlogWarning ''unable to delete temporary directory %q: %v'' [Str (Tmpdir c), Err err]
          \<in> set (Close RemoveAll c :: 'v event list)) \<and>
     (\<forall>p. OsRemoveAll p \<in> set (Close RemoveAll c :: 'v event list) \<longrightarrow> p = Tmpdir c)"
  by (auto simp: Close_def split: option.splits)

theorem Close_best_effort_witness:
  "Tmpdir \<lparr>Tmpdir = ''/tmp/deploy1'', Target = None\<rparr> \<noteq> [] \<and>
   (\<lambda>p. Some (OtherError ''busy'')) ''/tmp/deploy1'' = Some (OtherError ''busy'') \<and>
   OsRemoveAll ''/tmp/deploy1''
     \<in> set (Close (\<lambda>p. Some (OtherError ''busy'')) \<lparr>Tmpdir = ''/tmp/deploy1'', Target = None\<rparr>
              :: unit event list) \<and>
   GlogWarning ''unable to delete temporary directory %q: %v''
       [Str ''/tmp/deploy1'', Err (OtherError ''busy'')]
     \<in> set (Close (\<lambda>p. Some (OtherError ''busy'')) \<lparr>Tmpdir = ''/tmp/deploy1'', Target = None\<rparr>
              :: unit event list)"
  using Close_best_effort [where 'v = unit and c = "\<lparr>Tmpdir = ''/tmp/deploy1'', Target = None\<rparr>"
                              and RemoveAll = "\<lambda>p. Some (OtherError ''busy'')"]
  by simp

subsection \<open>The lifecycle policy\<close>

text \<open>When lines 108-152 let the call through to line 154.\<close>

lemma lifecycleCheck_None_iff:
  "lifecycleCheck d a e changes = None \<longleftrightarrow>
     lifecycleOf e = None \<or>
     (a \<noteq> None \<and> lifecycleOf e \<noteq> Some LifecycleExistsAndValidates
              \<and> lifecycleOf e \<noteq> Some LifecycleExistsAndWarnIfChanges)"
  by (auto simp: lifecycleCheck_def split: option.splits Lifecycle.splits sum.splits)

text \<open>
  C2, as the code has it. When \<open>actual\<close> is a nil pointer held in the interface: under
  \<open>ExistsAndValidates\<close> and under \<open>ExistsAndWarnIfChanges\<close> Render fails with the "object
  was not found" error of that policy and does nothing else, and under \<open>Sync\<close> Render is
  the dispatch of lines 154-212. When \<open>actual\<close> is the nil interface, the zero value of
  \<open>Task\<close>, and \<open>expected\<close> declares a policy, whichever it is, Render panics in
  \<open>reflect.ValueOf(a).IsNil()\<close>. With no policy Render is the dispatch of lines 154-212,
  whatever \<open>actual\<close> is.
\<close>

theorem Render_lifecycle_absent:
  "(a = Some ta \<and> ptr ta = None \<longrightarrow>
      (lifecycleOf e = Some LifecycleExistsAndValidates \<longrightarrow>
         Render d c a e changes =
           ([], Return (Some (Errorf ''Lifecycle set to ExistsAndValidates, but object was not found'' [])))) \<and>
      (lifecycleOf e = Some LifecycleExistsAndWarnIfChanges \<longrightarrow>
         Render d c a e changes =
           ([], Return (Some (Errorf ''Lifecycle set to ExistsAndWarnIfChanges, but object was not found'' [])))) \<and>
      (lifecycleOf e = Some LifecycleSync \<longrightarrow>
         Render d c a e changes = dispatch d c a e changes)) \<and>
   (a = None \<longrightarrow>
      (\<forall>lifecycle. lifecycleOf e = Some lifecycle \<longrightarrow> Render d c a e changes = ([], Panic))) \<and>
   (lifecycleOf e = None \<longrightarrow> Render d c a e changes = dispatch d c a e changes)"
  by (auto simp: Render_def lifecycleCheck_def)

theorem Render_lifecycle_absent_witness:
  "Render exDeps (exContext (OtherTarget ''*AWSAPITarget'')) (Some (exTask None None))
      (Some (exTask (Some ''subnet-1'') (Some (Some LifecycleExistsAndValidates))))
      (Some (exTask (Some ''changes'') None))
     = ([], Return (Some (Errorf ''Lifecycle set to ExistsAndValidates, but object was not found'' []))) \<and>
   Render exDeps (exContext (OtherTarget ''*AWSAPITarget'')) (Some (exTask None None))
      (Some (exTask (Some ''subnet-1'') (Some (Some LifecycleExistsAndWarnIfChanges))))
      (Some (exTask (Some ''changes'') None))
     = ([], Return (Some (Errorf ''Lifecycle set to ExistsAndWarnIfChanges, but object was not found'' []))) \<and>
   Render exDeps (exContext (OtherTarget ''*AWSAPITarget'')) (Some (exTask None None))
      (Some (exTask (Some ''subnet-1'') (Some (Some LifecycleSync))))
      (Some (exTask (Some ''changes'') None))
     = dispatch exDeps (exContext (OtherTarget ''*AWSAPITarget'')) (Some (exTask None None))
         (Some (exTask (Some ''subnet-1'') (Some (Some LifecycleSync))))
         (Some (exTask (Some ''changes'') None)) \<and>
   Render exDeps (exContext (OtherTarget ''*AWSAPITarget'')) None
      (Some (exTask (Some ''subnet-1'') (Some (Some LifecycleSync))))
      (Some (exTask (Some ''changes'') None))
     = ([], Panic) \<and>
   Render exDeps (exContext (OtherTarget ''*AWSAPITarget'')) None
      (Some (exTask (Some ''subnet-1'') None))
      (Some (exTask (Some ''changes'') None))
     = dispatch exDeps (exContext (OtherTarget ''*AWSAPITarget'')) None
         (Some (exTask (Some ''subnet-1'') None))
         (Some (exTask (Some ''changes'') None))"
  using
    Render_lifecycle_absent [where a = "Some (exTask None None)" and ta = "exTask None None"
      and e = "Some (exTask (Some ''subnet-1'') (Some (Some LifecycleExistsAndValidates)))"
      and d = exDeps and c = "exContext (OtherTarget ''*AWSAPITarget'')"
      and changes = "Some (exTask (Some ''changes'') None)"]
    Render_lifecycle_absent [where a = "Some (exTask None None)" and ta = "exTask None None"
      and e = "Some (exTask (Some ''subnet-1'') (Some (Some LifecycleExistsAndWarnIfChanges)))"
      and d = exDeps and c = "exContext (OtherTarget ''*AWSAPITarget'')"
      and changes = "Some (exTask (Some ''changes'') None)"]
    Render_lifecycle_absent [where a = "Some (exTask None None)" and ta = "exTask None None"
      and e = "Some (exTask (Some ''subnet-1'') (Some (Some LifecycleSync)))"
      and d = exDeps and c = "exContext (OtherTarget ''*AWSAPITarget'')"
      and changes = "Some (exTask (Some ''changes'') None)"]
    Render_lifecycle_absent [where a = "None" and ta = "exTask None None"
      and e = "Some (exTask (Some ''subnet-1'') (Some (Some LifecycleSync)))"
      and d = exDeps and c = "exContext (OtherTarget ''*AWSAPITarget'')"
      and changes = "Some (exTask (Some ''changes'') None)"]
    Render_lifecycle_absent [where a = "None" and ta = "exTask None None"
      and e = "Some (exTask (Some ''subnet-1'') None)"
      and d = exDeps and c = "exContext (OtherTarget ''*AWSAPITarget'')"
      and changes = "Some (exTask (Some ''changes'') None)"]
  by (simp add: lifecycleOf_def exTask_def)

text \<open>
  The claim C2 as stated fails at the zero value of \<open>Task\<close>, the nil interface: under
  \<open>ExistsAndValidates\<close> Render panics at line 109 and returns no error, and under \<open>Sync\<close>
  it panics there too, where the dispatch would have called \<open>RenderAWS\<close>.
\<close>

theorem Render_lifecycle_absent_counterexample:
  "Render exDeps (exContext (OtherTarget ''*AWSAPITarget'')) None
      (Some (exTask (Some ''subnet-1'') (Some (Some LifecycleExistsAndValidates))))
      (Some (exTask (Some ''changes'') None))
     = ([], Panic) \<and>
   Render exDeps (exContext (OtherTarget ''*AWSAPITarget'')) None
      (Some (exTask (Some ''subnet-1'') (Some (Some LifecycleSync))))
      (Some (exTask (Some ''changes'') None))
     = ([], Panic) \<and>
   dispatch exDeps (exContext (OtherTarget ''*AWSAPITarget'')) None
      (Some (exTask (Some ''subnet-1'') (Some (Some LifecycleSync))))
      (Some (exTask (Some ''changes'') None))
     = ([GlogV 11 ''Calling method %s on %T'' [Str ''RenderAWS'', Str ''*Subnet''],
         MethodCall ''RenderAWS''
           [ValTarget (Some (OtherTarget ''*AWSAPITarget'')),
            ValTask None,
            ValTask (Some (exTask (Some ''subnet-1'') (Some (Some LifecycleSync)))),
            ValTask (Some (exTask (Some ''changes'') None))]],
        Return (Some (OtherError ''RequestLimitExceeded'')))"
  by (simp add: Render_def lifecycleCheck_def lifecycleOf_def dispatch_def exTask_def exContext_def
        exMethods_def exDeps_def HasPrefix_def typeContextPtr_def)

text \<open>
  C3, as the code has it. Under \<open>ExistsAndWarnIfChanges\<close> with \<open>actual\<close> present: when the
  change list is built, Render returns success and all it does is write the report of that
  change list to standard error (no routine is called, the dry-run target records
  nothing); when building the change list fails, Render returns that error and writes
  nothing.
\<close>

theorem Render_warn_if_changes:
  assumes "lifecycleOf e = Some LifecycleExistsAndWarnIfChanges" and "a = Some ta"
    and "ptr ta \<noteq> None"
  shows "(\<forall>changeList. buildChangeList d a e changes = Inr changeList \<longrightarrow>
            Render d c a e changes = ([Stderr (report (getTaskName d e) changeList)], Return None)) \<and>
         (\<forall>err. buildChangeList d a e changes = Inl err \<longrightarrow>
            Render d c a e changes = ([], Return (Some err)))"
  using assms by (auto simp: Render_def lifecycleCheck_def)

theorem Render_warn_if_changes_witness:
  "Render exDeps (exContext (OtherTarget ''*AWSAPITarget'')) (Some (exTask (Some ''subnet-0'') None))
      (Some (exTask (Some ''subnet-1'') (Some (Some LifecycleExistsAndWarnIfChanges))))
      (Some (exTask (Some ''changes'') None))
     = ([Stderr (report ''subnet'' [\<lparr>FieldName = ''Name'', Description = '' foo -> bar''\<rparr>])], Return None) \<and>
   Render (exDeps\<lparr>buildChangeList := \<lambda>a e changes. Inl (OtherError ''unhandled change type'')\<rparr>)
      (exContext (OtherTarget ''*AWSAPITarget'')) (Some (exTask (Some ''subnet-0'') None))
      (Some (exTask (Some ''subnet-1'') (Some (Some LifecycleExistsAndWarnIfChanges))))
      (Some (exTask None None))
     = ([], Return (Some (OtherError ''unhandled change type'')))"
  using
    Render_warn_if_changes [where d = exDeps and c = "exContext (OtherTarget ''*AWSAPITarget'')"
      and a = "Some (exTask (Some ''subnet-0'') None)" and ta = "exTask (Some ''subnet-0'') None"
      and e = "Some (exTask (Some ''subnet-1'') (Some (Some LifecycleExistsAndWarnIfChanges)))"
      and changes = "Some (exTask (Some ''changes'') None)"]
    Render_warn_if_changes [where d = "exDeps\<lparr>buildChangeList := \<lambda>a e changes. Inl (OtherError ''unhandled change type'')\<rparr>"
      and c = "exContext (OtherTarget ''*AWSAPITarget'')"
      and a = "Some (exTask (Some ''subnet-0'') None)" and ta = "exTask (Some ''subnet-0'') None"
      and e = "Some (exTask (Some ''subnet-1'') (Some (Some LifecycleExistsAndWarnIfChanges)))"
      and changes = "Some (exTask None None)"]
  by (simp add: lifecycleOf_def exTask_def exDeps_def)

text \<open>
  The claim C3 as stated, that Render returns success on every such call, fails when
  \<open>buildChangeList\<close> returns an error: line 123 returns it.
\<close>

theorem Render_warn_if_changes_counterexample:
  "lifecycleOf (Some (exTask (Some ''subnet-1'') (Some (Some LifecycleExistsAndWarnIfChanges))))
     = Some LifecycleExistsAndWarnIfChanges \<and>
   ptr (exTask (Some ''subnet-0'') None) \<noteq> None \<and>
   Render (exDeps\<lparr>buildChangeList := \<lambda>a e changes. Inl (OtherError ''unhandled change type'')\<rparr>)
      (exContext (OtherTarget ''*AWSAPITarget'')) (Some (exTask (Some ''subnet-0'') None))
      (Some (exTask (Some ''subnet-1'') (Some (Some LifecycleExistsAndWarnIfChanges))))
      (Some (exTask None None))
     = ([], Return (Some (OtherError ''unhandled change type'')))"
  by (simp add: Render_def lifecycleCheck_def lifecycleOf_def exTask_def exDeps_def)

text \<open>
  C5, as the code has it. Under \<open>ExistsAndValidates\<close> with \<open>actual\<close> present: when the
  change list is built, Render writes the report and fails with "object did not match",
  whatever the change list holds, the empty list included; when building the change list
  fails, Render returns that error.
\<close>

theorem Render_exists_and_validates:
  assumes "lifecycleOf e = Some LifecycleExistsAndValidates" and "a = Some ta"
    and "ptr ta \<noteq> None"
  shows "(\<forall>changeList. buildChangeList d a e changes = Inr changeList \<longrightarrow>
            Render d c a e changes =
              ([Stderr (report (getTaskName d e) changeList)],
               Return (Some (Errorf ''Lifecycle set to ExistsAndValidates, but object did not match'' [])))) \<and>
         (\<forall>err. buildChangeList d a e changes = Inl err \<longrightarrow>
            Render d c a e changes = ([], Return (Some err)))"
  using assms by (auto simp: Render_def lifecycleCheck_def)

theorem Render_exists_and_validates_witness:
  "Render (exDeps\<lparr>buildChangeList := \<lambda>a e changes. Inr []\<rparr>)
      (exContext (OtherTarget ''*AWSAPITarget'')) (Some (exTask (Some ''subnet-1'') None))
      (Some (exTask (Some ''subnet-1'') (Some (Some LifecycleExistsAndValidates))))
      (Some (exTask (Some ''changes'') None))
     = ([Stderr (report ''subnet'' [])],
        Return (Some (Errorf ''Lifecycle set to ExistsAndValidates, but object did not match'' []))) \<and>
   Render (exDeps\<lparr>buildChangeList := \<lambda>a e changes. Inl (OtherError ''unhandled change type'')\<rparr>)
      (exContext (OtherTarget ''*AWSAPITarget'')) (Some (exTask (Some ''subnet-1'') None))
      (Some (exTask (Some ''subnet-1'') (Some (Some LifecycleExistsAndValidates))))
      (Some (exTask None None))
     = ([], Return (Some (OtherError ''unhandled change type'')))"
  using
    Render_exists_and_validates [where d = "exDeps\<lparr>buildChangeList := \<lambda>a e changes. Inr []\<rparr>"
      and c = "exContext (OtherTarget ''*AWSAPITarget'')"
      and a = "Some (exTask (Some ''subnet-1'') None)" and ta = "exTask (Some ''subnet-1'') None"
      and e = "Some (exTask (Some ''subnet-1'') (Some (Some LifecycleExistsAndValidates)))"
      and changes = "Some (exTask (Some ''changes'') None)"]
    Render_exists_and_validates [where d = "exDeps\<lparr>buildChangeList := \<lambda>a e changes. Inl (OtherError ''unhandled change type'')\<rparr>"
      and c = "exContext (OtherTarget ''*AWSAPITarget'')"
      and a = "Some (exTask (Some ''subnet-1'') None)" and ta = "exTask (Some ''subnet-1'') None"
      and e = "Some (exTask (Some ''subnet-1'') (Some (Some LifecycleExistsAndValidates)))"
      and changes = "Some (exTask None None)"]
  by (simp add: lifecycleOf_def exTask_def exDeps_def)

text \<open>
  The claim C5 as stated, that Render does not fail when the change list is empty, fails:
  line 145 does not look at the change list.
\<close>

theorem Render_exists_and_validates_counterexample:
  "lifecycleOf (Some (exTask (Some ''subnet-1'') (Some (Some LifecycleExistsAndValidates))))
     = Some LifecycleExistsAndValidates \<and>
   ptr (exTask (Some ''subnet-1'') None) \<noteq> None \<and>
   buildChangeList (exDeps\<lparr>buildChangeList := \<lambda>a e changes. Inr []\<rparr>)
      (Some (exTask (Some ''subnet-1'') None))
      (Some (exTask (Some ''subnet-1'') (Some (Some LifecycleExistsAndValidates))))
      (Some (exTask (Some ''changes'') None)) = Inr [] \<and>
   snd (Render (exDeps\<lparr>buildChangeList := \<lambda>a e changes. Inr []\<rparr>)
      (exContext (OtherTarget ''*AWSAPITarget'')) (Some (exTask (Some ''subnet-1'') None))
      (Some (exTask (Some ''subnet-1'') (Some (Some LifecycleExistsAndValidates))))
      (Some (exTask (Some ''changes'') None)))
     = Return (Some (Errorf ''Lifecycle set to ExistsAndValidates, but object did not match'' []))"
  by (simp add: Render_def lifecycleCheck_def lifecycleOf_def exTask_def exDeps_def)

subsection \<open>The report\<close>

lemma Split_not_Nil: "Split s sep \<noteq> []"
  by (induction s) (auto split: list.splits)

lemma Split_no_sep: "l \<in> set (Split s sep) \<Longrightarrow> sep \<notin> set l"
proof (induction s arbitrary: l)
  case Nil
  then show ?case by simp
next
  case (Cons x xs)
  show ?case
  proof (cases "x = sep")
    case True
    with Cons show ?thesis by auto
  next
    case False
    obtain p ps where sp: "Split xs sep = p # ps"
      using Split_not_Nil [of xs sep] by (cases "Split xs sep") auto
    with False Cons.prems have "l = x # p \<or> l \<in> set ps" by simp
    with False sp Cons.IH show ?thesis by auto
  qed
qed

lemma length_Split_1: "length (Split s sep) = Suc 0 \<longleftrightarrow> sep \<notin> set s"
proof (induction s)
  case Nil
  then show ?case by simp
next
  case (Cons x xs)
  obtain p ps where sp: "Split xs sep = p # ps"
    using Split_not_Nil [of xs sep] by (cases "Split xs sep") auto
  with Cons show ?case by auto
qed

lemma changeText_lines: "changeText c = concat (map (\<lambda>l. l @ [NL]) (changeLines c))"
  by (simp add: changeText_def changeLines_def length_Split_1 pad20_def Let_def comp_def)

lemma report_lines:
  "report taskName changeList = concat (map (\<lambda>l. l @ [NL]) (reportLines taskName changeList))"
proof -
  have "concat (map changeText cl) = concat (map (\<lambda>l. l @ [NL]) (concat (map changeLines cl)))" for cl
    by (induction cl) (simp_all add: changeText_lines)
  then show ?thesis
    by (simp add: report_def reportLines_def)
qed

lemma pad20_no_NL: "NL \<notin> set s \<Longrightarrow> NL \<notin> set (pad20 s)"
  by (auto simp: pad20_def NL_def)

lemma changeLines_no_NL:
  "NL \<notin> set (FieldName c) \<Longrightarrow> l \<in> set (changeLines c) \<Longrightarrow> NL \<notin> set l"
  using pad20_no_NL [of "FieldName c"] Split_no_sep [of _ "Description c" NL]
  by (auto simp: changeLines_def NL_def TAB_def split: if_splits)

lemma reportLines_no_NL:
  assumes "NL \<notin> set taskName" and "\<forall>ch \<in> set changeList. NL \<notin> set (FieldName ch)"
    and "l \<in> set (reportLines taskName changeList)"
  shows "NL \<notin> set l"
proof -
  from assms(3) consider "l = ''Object from different phase did not match, problems possible:''"
    | "l = ''  '' @ taskName @ ''/'' @ ''?''"
    | ch where "ch \<in> set changeList" and "l \<in> set (changeLines ch)"
    | "l = []"
    by (auto simp: reportLines_def)
  then show ?thesis
  proof cases
    case 1
    then show ?thesis by (simp add: NL_def)
  next
    case 2
    with assms(1) show ?thesis by (auto simp: NL_def)
  next
    case 3
    with assms(2) changeLines_no_NL show ?thesis by blast
  next
    case 4
    then show ?thesis by simp
  qed
qed

lemma dispatch_no_Stderr: "Stderr s \<notin> set (fst (dispatch d c a e changes))"
  by (auto simp: dispatch_def DryRunTarget_Render_def Let_def
           split: option.splits Target.splits sum.splits prod.splits)

lemma lifecycleCheck_Stderr:
  "lifecycleCheck d a e changes = Some out \<Longrightarrow> Stderr s \<in> set (fst out) \<Longrightarrow>
   \<exists>changeList. buildChangeList d a e changes = Inr changeList \<and>
                s = report (getTaskName d e) changeList"
  by (auto simp: lifecycleCheck_def split: option.splits if_splits Lifecycle.splits sum.splits)

text \<open>
  C7, as the code has it. Whatever Render writes to standard error is the report of the
  change list it built: the lines of \<open>reportLines\<close>, each ended by a newline. They are
  lines indeed (none holds a newline) when the task name and the field names hold none.
\<close>

theorem Render_report_format:
  assumes "Stderr s \<in> set (fst (Render d c a e changes))"
  shows "\<exists>changeList. buildChangeList d a e changes = Inr changeList \<and>
           s = concat (map (\<lambda>l. l @ [NL]) (reportLines (getTaskName d e) changeList)) \<and>
           (NL \<notin> set (getTaskName d e) \<and> (\<forall>ch \<in> set changeList. NL \<notin> set (FieldName ch)) \<longrightarrow>
              (\<forall>l \<in> set (reportLines (getTaskName d e) changeList). NL \<notin> set l))"
proof (cases "lifecycleCheck d a e changes")
  case None
  with assms dispatch_no_Stderr [of s d c a e changes] show ?thesis
    by (simp add: Render_def)
next
  case (Some out)
  with assms have "Stderr s \<in> set (fst out)" by (simp add: Render_def)
  from lifecycleCheck_Stderr [OF Some this] obtain changeList
    where "buildChangeList d a e changes = Inr changeList"
      and "s = report (getTaskName d e) changeList" by blast
  then show ?thesis
    using reportLines_no_NL [of "getTaskName d e" changeList] by (auto simp: report_lines)
qed

theorem Render_report_format_witness:
  "Stderr (report ''subnet'' [\<lparr>FieldName = ''Name'', Description = '' foo -> bar''\<rparr>])
     \<in> set (fst (Render exDeps (exContext (OtherTarget ''*AWSAPITarget'')) (Some (exTask (Some ''subnet-0'') None))
          (Some (exTask (Some ''subnet-1'') (Some (Some LifecycleExistsAndWarnIfChanges))))
          (Some (exTask (Some ''changes'') None)))) \<and>
   report ''subnet'' [\<lparr>FieldName = ''Name'', Description = '' foo -> bar''\<rparr>]
     = concat (map (\<lambda>l. l @ [NL])
         (reportLines ''subnet'' [\<lparr>FieldName = ''Name'', Description = '' foo -> bar''\<rparr>])) \<and>
   list_all (\<lambda>l. NL \<notin> set l)
     (reportLines ''subnet'' [\<lparr>FieldName = ''Name'', Description = '' foo -> bar''\<rparr>])"
proof -
  have h: "Stderr (report ''subnet'' [\<lparr>FieldName = ''Name'', Description = '' foo -> bar''\<rparr>])
     \<in> set (fst (Render exDeps (exContext (OtherTarget ''*AWSAPITarget'')) (Some (exTask (Some ''subnet-0'') None))
          (Some (exTask (Some ''subnet-1'') (Some (Some LifecycleExistsAndWarnIfChanges))))
          (Some (exTask (Some ''changes'') None))))"
    by (simp add: Render_def lifecycleCheck_def lifecycleOf_def exTask_def exDeps_def)
  from Render_report_format [OF h] h show ?thesis
    by (simp add: exDeps_def NL_def list_all_iff)
qed

text \<open>
  The claim C7 as stated fails: for the field \<open>Name\<close> with the description
  \<open> foo -> bar\<close> the report has no line made of two spaces, a tab, the field, a tab and
  the description, since the field is padded to 20 characters; and the line of the task
  name is the second line, behind a title.
\<close>

theorem Render_report_format_counterexample:
  "fst (Render exDeps (exContext (OtherTarget ''*AWSAPITarget'')) (Some (exTask (Some ''subnet-0'') None))
          (Some (exTask (Some ''subnet-1'') (Some (Some LifecycleExistsAndWarnIfChanges))))
          (Some (exTask (Some ''changes'') None)))
     = [Stderr (report ''subnet'' [\<lparr>FieldName = ''Name'', Description = '' foo -> bar''\<rparr>])] \<and>
   Split (report ''subnet'' [\<lparr>FieldName = ''Name'', Description = '' foo -> bar''\<rparr>]) NL
     = [''Object from different phase did not match, problems possible:'',
        ''  subnet/?'',
        ''  '' @ [TAB] @ ''Name                '' @ [TAB] @ '' foo -> bar'',
        [],
        []] \<and>
   specFieldLine ''Name'' '' foo -> bar''
     \<notin> set (Split (report ''subnet'' [\<lparr>FieldName = ''Name'', Description = '' foo -> bar''\<rparr>]) NL)"
proof -
  have "fst (Render exDeps (exContext (OtherTarget ''*AWSAPITarget'')) (Some (exTask (Some ''subnet-0'') None))
          (Some (exTask (Some ''subnet-1'') (Some (Some LifecycleExistsAndWarnIfChanges))))
          (Some (exTask (Some ''changes'') None)))
     = [Stderr (report ''subnet'' [\<lparr>FieldName = ''Name'', Description = '' foo -> bar''\<rparr>])]"
    by (simp add: Render_def lifecycleCheck_def lifecycleOf_def exTask_def exDeps_def)
  moreover have "Split (report ''subnet'' [\<lparr>FieldName = ''Name'', Description = '' foo -> bar''\<rparr>]) NL
     = [''Object from different phase did not match, problems possible:'',
        ''  subnet/?'',
        ''  '' @ [TAB] @ ''Name                '' @ [TAB] @ '' foo -> bar'',
        [],
        []]"
    by code_simp
  moreover have "specFieldLine ''Name'' '' foo -> bar''
     \<notin> set (Split (report ''subnet'' [\<lparr>FieldName = ''Name'', Description = '' foo -> bar''\<rparr>]) NL)"
    by code_simp
  ultimately show ?thesis by blast
qed

subsection \<open>The dry-run target\<close>

text \<open>
  C4. When the active Target is the dry-run target and the lifecycle policy lets the call
  through, Render is \<open>DryRunTarget.Render\<close> on the same three tasks: all it does is record
  the triple, it returns success, and it calls no routine of the task.
\<close>

theorem Render_dry_run:
  assumes "Target c = Some DryRunTarget" and "lifecycleCheck d a e changes = None"
  shows "Render d c a e changes = DryRunTarget_Render a e changes \<and>
         Render d c a e changes = ([DryRunRender a e changes], Return None) \<and>
         (\<forall>name args. MethodCall name args \<notin> set (fst (Render d c a e changes)))"
  using assms by (simp add: Render_def dispatch_def DryRunTarget_Render_def)

theorem Render_dry_run_witness:
  "Target (exContext DryRunTarget) = Some DryRunTarget \<and>
   lifecycleCheck exDeps (Some (exTask None None)) (Some (exTask (Some ''subnet-1'') (Some (Some LifecycleSync))))
      (Some (exTask (Some ''changes'') None)) = None \<and>
   Render exDeps (exContext DryRunTarget) (Some (exTask None None))
      (Some (exTask (Some ''subnet-1'') (Some (Some LifecycleSync))))
      (Some (exTask (Some ''changes'') None))
     = ([DryRunRender (Some (exTask None None))
           (Some (exTask (Some ''subnet-1'') (Some (Some LifecycleSync))))
           (Some (exTask (Some ''changes'') None))], Return None)"
  using Render_dry_run [where c = "exContext DryRunTarget" and d = exDeps
      and a = "Some (exTask None None)"
      and e = "Some (exTask (Some ''subnet-1'') (Some (Some LifecycleSync)))"
      and changes = "Some (exTask (Some ''changes'') None)"]
  by (simp add: lifecycleCheck_def lifecycleOf_def exTask_def exContext_def DryRunTarget_Render_def)

subsection \<open>Finding the routine\<close>

lemma matchArgs_Some_iff:
  "(\<exists>r. matchArgs d c vType targetType ins acc = Some r) \<longleftrightarrow>
   list_all (\<lambda>arg. ConvertibleTo d arg vType \<or> ConvertibleTo d arg typeContextPtr
                      \<or> ConvertibleTo d arg targetType) ins"
  by (induction ins arbitrary: acc) auto

lemma matchArgs_append:
  "matchArgs d c vType targetType ins acc = Some r \<Longrightarrow>
   \<exists>xs. r = acc @ xs \<and> set xs \<subseteq> {ValContext c, ValTarget (Target c)}"
proof (induction ins arbitrary: acc)
  case Nil
  then show ?case by simp
next
  case (Cons arg ins)
  show ?case
  proof (cases "ConvertibleTo d arg vType")
    case True
    with Cons show ?thesis by simp
  next
    case notv: False
    show ?thesis
    proof (cases "ConvertibleTo d arg typeContextPtr")
      case True
      with notv Cons.prems have "matchArgs d c vType targetType ins (acc @ [ValContext c]) = Some r"
        by simp
      from Cons.IH [OF this] show ?thesis by auto
    next
      case False
      with notv Cons.prems have "matchArgs d c vType targetType ins (acc @ [ValTarget (Target c)]) = Some r"
        by (simp split: if_splits)
      from Cons.IH [OF this] show ?thesis by auto
    qed
  qed
qed

lemma matchArgs_char:
  "matchArgs d c vType targetType ins acc = Some r \<Longrightarrow> r = acc @ resolvedArgs d c vType ins"
proof (induction ins arbitrary: acc)
  case Nil
  then show ?case by (simp add: resolvedArgs_def)
next
  case (Cons arg ins)
  show ?case
  proof (cases "ConvertibleTo d arg vType")
    case True
    with Cons show ?thesis by (simp add: resolvedArgs_def)
  next
    case notv: False
    show ?thesis
    proof (cases "ConvertibleTo d arg typeContextPtr")
      case True
      with notv Cons.prems have "matchArgs d c vType targetType ins (acc @ [ValContext c]) = Some r"
        by simp
      from Cons.IH [OF this] notv True show ?thesis by (simp add: resolvedArgs_def)
    next
      case False
      with notv Cons.prems have "matchArgs d c vType targetType ins (acc @ [ValTarget (Target c)]) = Some r"
        by (simp split: if_splits)
      from Cons.IH [OF this] notv False show ?thesis by (simp add: resolvedArgs_def)
    qed
  qed
qed

lemma matchArgs_set:
  "matchArgs d c vType targetType ins [] = Some r \<Longrightarrow>
   set r \<subseteq> {ValContext c, ValTarget (Target c)}"
  using matchArgs_append [of d c vType targetType ins "[]" r] by auto

lemma matching_iff:
  "matching d vType targetType m \<longleftrightarrow>
   HasPrefix (Name m) ''Render'' \<and> (\<exists>r. matchArgs d c vType targetType (In m) [] = Some r)"
  by (simp add: matching_def matchArgs_Some_iff)

lemma findRenderer_Some:
  "findRenderer d c vType targetType ms (Some r) =
     (if filter (matching d vType targetType) ms = [] then Inr (Some r)
      else Inl (Errorf ''Found multiple Render methods that could be invokved on %T'' [Str vType]))"
proof (induction ms)
  case Nil
  then show ?case by simp
next
  case (Cons m ms)
  show ?case
  proof (cases "matching d vType targetType m")
    case True
    then obtain args where "HasPrefix (Name m) ''Render''"
      and "matchArgs d c vType targetType (In m) [] = Some args"
      using matching_iff [of d vType targetType m c] by blast
    with True show ?thesis by simp
  next
    case False
    then have "\<not> HasPrefix (Name m) ''Render'' \<or> matchArgs d c vType targetType (In m) [] = None"
      using matching_iff [of d vType targetType m c] by auto
    with False Cons show ?thesis by auto
  qed
qed

lemma findRenderer_None:
  "findRenderer d c vType targetType ms None =
     (case filter (matching d vType targetType) ms of
        [] \<Rightarrow> Inr None
      | [m] \<Rightarrow> Inr (Some (m, the (matchArgs d c vType targetType (In m) [])))
      | _ \<Rightarrow> Inl (Errorf ''Found multiple Render methods that could be invokved on %T'' [Str vType]))"
proof (induction ms)
  case Nil
  then show ?case by simp
next
  case (Cons m ms)
  show ?case
  proof (cases "matching d vType targetType m")
    case True
    then obtain args where "HasPrefix (Name m) ''Render''"
      and "matchArgs d c vType targetType (In m) [] = Some args"
      using matching_iff [of d vType targetType m c] by blast
    with True show ?thesis
      by (simp add: findRenderer_Some split: list.splits)
  next
    case False
    then have "\<not> HasPrefix (Name m) ''Render'' \<or> matchArgs d c vType targetType (In m) [] = None"
      using matching_iff [of d vType targetType m c] by auto
    with False Cons show ?thesis by auto
  qed
qed

text \<open>
  C1. When the call reaches the search for a routine (the lifecycle policy lets it
  through, the Target is not the dry-run target): with more than one matching method
  Render fails with "Found multiple Render methods", with none it fails with "Could not
  find Render method", and with exactly one the only method called is that one.
\<close>

theorem Render_dispatch:
  assumes "lifecycleCheck d a e changes = None" and "Target c = Some (OtherTarget tt)"
    and "e = Some te"
  shows "(1 < length (filter (matching d (GoType te) tt) (Methods te)) \<longrightarrow>
            Render d c a e changes =
              ([], Return (Some (Errorf ''Found multiple Render methods that could be invokved on %T''
                                   [Str (GoType te)])))) \<and>
         (filter (matching d (GoType te) tt) (Methods te) = [] \<longrightarrow>
            Render d c a e changes =
              ([], Return (Some (Errorf ''Could not find Render method on type %T (target %T)''
                                   [Str (GoType te), Str tt])))) \<and>
         (\<forall>m. filter (matching d (GoType te) tt) (Methods te) = [m] \<longrightarrow>
            (\<exists>args. fst (Render d c a e changes) =
               [GlogV 11 ''Calling method %s on %T'' [Str (Name m), Str (GoType te)],
                MethodCall (Name m) args]))"
proof -
  have r: "Render d c a e changes =
      (case findRenderer d c (GoType te) tt (Methods te) None of
         Inl err \<Rightarrow> ([], Return (Some err))
       | Inr None \<Rightarrow>
           ([], Return (Some (Errorf ''Could not find Render method on type %T (target %T)''
                                [Str (GoType te), Str tt])))
       | Inr (Some (renderer, rendererArgs)) \<Rightarrow>
           ([GlogV 11 ''Calling method %s on %T'' [Str (Name renderer), Str (GoType te)],
             MethodCall (Name renderer) (rendererArgs @ [ValTask a, ValTask e, ValTask changes])],
            (case Call d te (Name renderer) (rendererArgs @ [ValTask a, ValTask e, ValTask changes]) of
               Returns rvErr \<Rightarrow> Return rvErr
             | CallPanics \<Rightarrow> Panic)))"
    using assms by (auto simp: Render_def dispatch_def Let_def split: sum.splits option.splits)
  show ?thesis
    unfolding r findRenderer_None
    by (auto split: list.splits)
qed

theorem Render_dispatch_witness:
  "Render exDeps (exContext (OtherTarget ''*AWSAPITarget'')) (Some (exTask None None))
      (Some ((exTask (Some ''subnet-1'') None)\<lparr>Methods := exAmbiguous\<rparr>))
      (Some (exTask (Some ''changes'') None))
     = ([], Return (Some (Errorf ''Found multiple Render methods that could be invokved on %T''
                             [Str ''*Subnet'']))) \<and>
   Render exDeps (exContext (OtherTarget ''*GCETarget'')) (Some (exTask None None))
      (Some (exTask (Some ''subnet-1'') None))
      (Some (exTask (Some ''changes'') None))
     = ([], Return (Some (Errorf ''Could not find Render method on type %T (target %T)''
                             [Str ''*Subnet'', Str ''*GCETarget'']))) \<and>
   (\<exists>args. fst (Render exDeps (exContext (OtherTarget ''*AWSAPITarget'')) (Some (exTask None None))
                   (Some (exTask (Some ''subnet-1'') None))
                   (Some (exTask (Some ''changes'') None)))
     = [GlogV 11 ''Calling method %s on %T'' [Str ''RenderAWS'', Str ''*Subnet''],
        MethodCall ''RenderAWS'' args])"
  using
    Render_dispatch [where d = exDeps and c = "exContext (OtherTarget ''*AWSAPITarget'')"
      and a = "Some (exTask None None)"
      and e = "Some ((exTask (Some ''subnet-1'') None)\<lparr>Methods := exAmbiguous\<rparr>)"
      and te = "(exTask (Some ''subnet-1'') None)\<lparr>Methods := exAmbiguous\<rparr>"
      and changes = "Some (exTask (Some ''changes'') None)" and tt = "''*AWSAPITarget''"]
    Render_dispatch [where d = exDeps and c = "exContext (OtherTarget ''*GCETarget'')"
      and a = "Some (exTask None None)"
      and e = "Some (exTask (Some ''subnet-1'') None)"
      and te = "exTask (Some ''subnet-1'') None"
      and changes = "Some (exTask (Some ''changes'') None)" and tt = "''*GCETarget''"]
    Render_dispatch [where d = exDeps and c = "exContext (OtherTarget ''*AWSAPITarget'')"
      and a = "Some (exTask None None)"
      and e = "Some (exTask (Some ''subnet-1'') None)"
      and te = "exTask (Some ''subnet-1'') None"
      and changes = "Some (exTask (Some ''changes'') None)" and tt = "''*AWSAPITarget''"]
  by (simp add: lifecycleCheck_def lifecycleOf_def exTask_def exContext_def exMethods_def
        exAmbiguous_def matching_def exDeps_def HasPrefix_def typeContextPtr_def)

text \<open>
  C6. When the search resolves a single routine \<open>m\<close> with the arguments \<open>args\<close>: these
  are the resolved arguments of \<open>m\<close>, the Context for each parameter of the Context type
  and the Target for each parameter of the Target's type, in the order of the parameters;
  the routine is called with them followed by \<open>actual\<close>, \<open>expected\<close> and \<open>changes\<close>; and the
  error the call returns, nil included, is what Render returns.
\<close>

theorem Render_invokes_renderer:
  assumes "lifecycleCheck d a e changes = None" and "Target c = Some (OtherTarget tt)"
    and "e = Some te"
    and "findRenderer d c (GoType te) tt (Methods te) None = Inr (Some (m, args))"
  shows "args = resolvedArgs d c (GoType te) (In m) \<and>
         matchArgs d c (GoType te) tt (In m) [] = Some args \<and>
         set args \<subseteq> {ValContext c, ValTarget (Target c)} \<and>
         fst (Render d c a e changes) =
           [GlogV 11 ''Calling method %s on %T'' [Str (Name m), Str (GoType te)],
            MethodCall (Name m)
              (resolvedArgs d c (GoType te) (In m) @ [ValTask a, ValTask e, ValTask changes])] \<and>
         (\<forall>rvErr. Call d te (Name m)
                     (resolvedArgs d c (GoType te) (In m) @ [ValTask a, ValTask e, ValTask changes])
                   = Returns rvErr \<longrightarrow>
            snd (Render d c a e changes) = Return rvErr)"
proof -
  from assms(4) have f: "filter (matching d (GoType te) tt) (Methods te) = [m]"
    and a: "args = the (matchArgs d c (GoType te) tt (In m) [])"
    by (auto simp: findRenderer_None split: list.splits)
  from f have "m \<in> set (filter (matching d (GoType te) tt) (Methods te))" by simp
  then have "matching d (GoType te) tt m" by simp
  then obtain r where "matchArgs d c (GoType te) tt (In m) [] = Some r"
    using matching_iff [of d "GoType te" tt m c] by blast
  with a have m: "matchArgs d c (GoType te) tt (In m) [] = Some args" by simp
  from matchArgs_char [OF m] have r: "args = resolvedArgs d c (GoType te) (In m)" by simp
  have "Render d c a e changes =
      ([GlogV 11 ''Calling method %s on %T'' [Str (Name m), Str (GoType te)],
        MethodCall (Name m) (args @ [ValTask a, ValTask e, ValTask changes])],
       (case Call d te (Name m) (args @ [ValTask a, ValTask e, ValTask changes]) of
          Returns rvErr \<Rightarrow> Return rvErr
        | CallPanics \<Rightarrow> Panic))"
    using assms by (simp add: Render_def dispatch_def Let_def)
  with m matchArgs_set [OF m] r show ?thesis by simp
qed

theorem Render_invokes_renderer_witness:
  "findRenderer exDeps (exContext (OtherTarget ''*AWSAPITarget'')) ''*Subnet'' ''*AWSAPITarget'' exBoth None
     = Inr (Some (exBoth ! 1,
                  [ValTarget (Some (OtherTarget ''*AWSAPITarget'')),
                   ValContext (exContext (OtherTarget ''*AWSAPITarget''))])) \<and>
   resolvedArgs exDeps (exContext (OtherTarget ''*AWSAPITarget'')) ''*Subnet'' (In (exBoth ! 1))
     = [ValTarget (Some (OtherTarget ''*AWSAPITarget'')),
        ValContext (exContext (OtherTarget ''*AWSAPITarget''))] \<and>
   fst (Render exDeps (exContext (OtherTarget ''*AWSAPITarget'')) (Some (exTask None None))
          (Some ((exTask (Some ''subnet-1'') None)\<lparr>Methods := exBoth\<rparr>))
          (Some (exTask (Some ''changes'') None)))
     = [GlogV 11 ''Calling method %s on %T'' [Str ''Render'', Str ''*Subnet''],
        MethodCall ''Render''
          [ValTarget (Some (OtherTarget ''*AWSAPITarget'')),
           ValContext (exContext (OtherTarget ''*AWSAPITarget'')),
           ValTask (Some (exTask None None)),
           ValTask (Some ((exTask (Some ''subnet-1'') None)\<lparr>Methods := exBoth\<rparr>)),
           ValTask (Some (exTask (Some ''changes'') None))]] \<and>
   snd (Render exDeps (exContext (OtherTarget ''*AWSAPITarget'')) (Some (exTask None None))
          (Some ((exTask (Some ''subnet-1'') None)\<lparr>Methods := exBoth\<rparr>))
          (Some (exTask (Some ''changes'') None)))
     = Return (Some (OtherError ''RequestLimitExceeded''))"
proof -
  have f: "findRenderer exDeps (exContext (OtherTarget ''*AWSAPITarget'')) ''*Subnet'' ''*AWSAPITarget''
             exBoth None
           = Inr (Some (exBoth ! 1,
                        [ValTarget (Some (OtherTarget ''*AWSAPITarget'')),
                         ValContext (exContext (OtherTarget ''*AWSAPITarget''))]))"
    by (simp add: exBoth_def exDeps_def exContext_def HasPrefix_def typeContextPtr_def)
  have c: "Call exDeps t name args = Returns (Some (OtherError ''RequestLimitExceeded''))" for t name args
    by (simp add: exDeps_def)
  have l: "lifecycleCheck exDeps (Some (exTask None None))
             (Some ((exTask (Some ''subnet-1'') None)\<lparr>Methods := exBoth\<rparr>))
             (Some (exTask (Some ''changes'') None)) = None"
    by (simp add: lifecycleCheck_def lifecycleOf_def exTask_def)
  have t: "Target (exContext (OtherTarget ''*AWSAPITarget'')) = Some (OtherTarget ''*AWSAPITarget'')"
    by (simp add: exContext_def)
  have g: "findRenderer exDeps (exContext (OtherTarget ''*AWSAPITarget''))
             (GoType ((exTask (Some ''subnet-1'') None)\<lparr>Methods := exBoth\<rparr>)) ''*AWSAPITarget''
             (Methods ((exTask (Some ''subnet-1'') None)\<lparr>Methods := exBoth\<rparr>)) None
           = Inr (Some (exBoth ! 1,
                        [ValTarget (Some (OtherTarget ''*AWSAPITarget'')),
                         ValContext (exContext (OtherTarget ''*AWSAPITarget''))]))"
    using f by (simp add: exTask_def)
  from Render_invokes_renderer [OF l t refl g] f c show ?thesis
    by (simp add: exTask_def exBoth_def exDeps_def exContext_def resolvedArgs_def typeContextPtr_def)
qed

section \<open>Theorems about package cloudup\<close>

subsection \<open>assignProxy\<close>

lemma Join_Split: "Join (Split s sep) [sep] = s"
proof (induction s)
  case Nil
  then show ?case by simp
next
  case (Cons x xs)
  obtain p ps where sp: "Split xs sep = p # ps"
    using Split_not_Nil [of xs sep] by (cases "Split xs sep") auto
  with Cons show ?case by (cases ps) auto
qed

lemma Join_append:
  "xs \<noteq> [] \<Longrightarrow> ys \<noteq> [] \<Longrightarrow> Join (xs @ ys) sep = Join xs sep @ sep @ Join ys sep"
proof (induction xs sep rule: Join.induct)
  case (1 sep)
  then show ?case by simp
next
  case (2 a sep)
  then show ?case by (cases ys) auto
next
  case (3 a b rest sep)
  then show ?case by simp
qed

lemma sublist_Join: "x \<in> set xs \<Longrightarrow> sublist x (Join xs sep)"
proof (induction xs sep rule: Join.induct)
  case (1 sep)
  then show ?case by simp
next
  case (2 a sep)
  then show ?case by simp
next
  case (3 a b rest sep)
  show ?case
  proof (cases "x = a")
    case True
    then show ?thesis by simp
  next
    case False
    with 3 have "sublist x (Join (b # rest) sep)" by simp
    then obtain ps ss where "Join (b # rest) sep = ps @ x @ ss"
      by (auto simp: sublist_def)
    then have "Join (a # b # rest) sep = (a @ sep @ ps) @ x @ ss" by simp
    then show ?thesis unfolding sublist_def by blast
  qed
qed

lemma addExcludes_eq:
  "addExcludes excludes cands egressSlice =
     egressSlice @ filter (\<lambda>x. x \<noteq> [] \<and> \<not> Contains excludes x) cands"
  by (induction cands arbitrary: egressSlice) auto

lemma Contains_Join_grown:
  assumes "x \<noteq> []" and "Contains old x \<or> x \<in> set added"
  shows "Contains (Join ((if old \<noteq> [] then Split old sep else []) @ added) [sep]) x"
proof -
  from assms(2) show ?thesis
  proof
    assume c: "Contains old x"
    with assms(1) have ne: "old \<noteq> []" by (auto simp: Contains_def)
    have "sublist old (Join (Split old sep @ added) [sep])"
    proof (cases "added = []")
      case True
      then show ?thesis by (simp add: Join_Split)
    next
      case False
      then show ?thesis
        using Join_append [of "Split old sep" added "[sep]"] Split_not_Nil [of old sep]
        by (simp add: Join_Split)
    qed
    with c ne show ?thesis
      unfolding Contains_def using sublist_order.order_trans by auto
  next
    assume "x \<in> set added"
    then show ?thesis
      unfolding Contains_def by (intro sublist_Join) simp
  qed
qed

lemma excludeCandidates_nonempty: "x \<in> set (excludeCandidates cluster firstIP) \<Longrightarrow> x \<noteq> []"
  by (auto simp: excludeCandidates_def split: if_splits)

text \<open>What \<open>assignProxy\<close> computes, in the words of the two definitions above.\<close>

lemma assignProxy_eq:
  "assignProxy env c =
     (case EgressProxy (Spec c) of
        None \<Rightarrow> (Inr None, c)
      | Some p0 \<Rightarrow>
          (case ParseCIDR env (NonMasqueradeCIDR (Spec c)) of
             Inl err \<Rightarrow> (Inl (Errorf ''unable to parse Non Masquerade CIDR'' []), c)
           | Inr (ip, ipNet) \<Rightarrow>
               (case incrementIP env ip (NonMasqueradeCIDR (Spec c)) of
                  Inl err \<Rightarrow> (Inl (Errorf ''unable to get first ip address in Non Masquerade CIDR'' []), c)
                | Inr firstIP \<Rightarrow>
                    (Inr (Some (p0\<lparr>ProxyExcludes :=
                            proxyExcludesOf (ProxyExcludes p0) (excludeCandidates c firstIP)\<rparr>)),
                     c\<lparr>Spec := (Spec c)\<lparr>EgressProxy :=
                            Some (p0\<lparr>ProxyExcludes :=
                              proxyExcludesOf (ProxyExcludes p0) (excludeCandidates c firstIP)\<rparr>)\<rparr>\<rparr>))))"
proof (cases "EgressProxy (Spec c)")
  case None
  then show ?thesis by (simp add: assignProxy_def)
next
  case (Some p0)
  show ?thesis
  proof (cases "ParseCIDR env (NonMasqueradeCIDR (Spec c))")
    case (Inl err)
    with Some show ?thesis by (simp add: assignProxy_def)
  next
    case (Inr parsed)
    obtain ip ipNet where parsed: "parsed = (ip, ipNet)" by (cases parsed)
    show ?thesis
    proof (cases "incrementIP env ip (NonMasqueradeCIDR (Spec c))")
      case (Inl err)
      with Some Inr parsed show ?thesis by (simp add: assignProxy_def)
    next
      case inc: (Inr firstIP)
      have single: "filter P [x] = (if P x then [x] else [])" for P :: "string \<Rightarrow> bool" and x
        by simp
      from Some Inr parsed inc show ?thesis
        by (simp add: assignProxy_def Let_def addExcludes_eq proxyExcludesOf_def
              excludeCandidates_def single filter.simps(1) del: filter.simps)
    qed
  qed
qed

lemma proxyExcludesOf_idem:
  assumes "\<And>x. x \<in> set candidates \<Longrightarrow> x \<noteq> []"
  shows "proxyExcludesOf (proxyExcludesOf excludes candidates) candidates
           = proxyExcludesOf excludes candidates"
proof -
  let ?new = "proxyExcludesOf excludes candidates"
  have "Contains ?new x" if "x \<in> set candidates" for x
    unfolding proxyExcludesOf_def
    using Contains_Join_grown [of x excludes "filter (\<lambda>exclude. \<not> Contains excludes exclude) candidates" "CHR '',''"]
      assms [OF that] that
    by auto
  then have "filter (\<lambda>exclude. \<not> Contains ?new exclude) candidates = []"
    by (simp add: filter_empty_conv)
  then have "proxyExcludesOf ?new candidates
               = Join (if ?new \<noteq> [] then Split ?new CHR '','' else []) '',''"
    unfolding proxyExcludesOf_def [of ?new] by simp
  also have "\<dots> = ?new"
    using Join_Split [of ?new "CHR '',''"] by simp
  finally show ?thesis .
qed

lemma ex_assignProxy:
  "assignProxy exEnv (exCluster ''example.org'')
     = (Inr (Some \<lparr>ProxyExcludes = exExcludes\<rparr>), exCluster exExcludes)"
  by code_simp

text \<open>
  C9. When \<open>assignProxy\<close> succeeds on a cluster with a proxy, returning the proxy \<open>p\<close> and
  leaving the cluster \<open>c'\<close>, a second \<open>assignProxy\<close> on \<open>c'\<close> succeeds with the same proxy,
  hence the same \<open>ProxyExcludes\<close>, and leaves \<open>c'\<close> as it is.
\<close>

theorem assignProxy_idempotent:
  assumes "assignProxy env c = (Inr (Some p), c')"
  shows "assignProxy env c' = (Inr (Some p), c')"
proof -
  from assms obtain p0 where e: "EgressProxy (Spec c) = Some p0"
    by (cases "EgressProxy (Spec c)") (simp_all add: assignProxy_eq)
  from assms e obtain ip ipNet where pc: "ParseCIDR env (NonMasqueradeCIDR (Spec c)) = Inr (ip, ipNet)"
    by (cases "ParseCIDR env (NonMasqueradeCIDR (Spec c))") (auto simp: assignProxy_eq)
  from assms e pc obtain firstIP where inc: "incrementIP env ip (NonMasqueradeCIDR (Spec c)) = Inr firstIP"
    by (cases "incrementIP env ip (NonMasqueradeCIDR (Spec c))") (auto simp: assignProxy_eq)
  from assms e pc inc
  have p: "p = p0\<lparr>ProxyExcludes := proxyExcludesOf (ProxyExcludes p0) (excludeCandidates c firstIP)\<rparr>"
    by (simp add: assignProxy_eq)
  from assms e pc inc p have c': "c' = c\<lparr>Spec := (Spec c)\<lparr>EgressProxy := Some p\<rparr>\<rparr>"
    by (simp add: assignProxy_eq)
  have cands: "excludeCandidates c' firstIP = excludeCandidates c firstIP"
    by (simp add: c' excludeCandidates_def)
  have idem: "proxyExcludesOf (ProxyExcludes p) (excludeCandidates c firstIP) = ProxyExcludes p"
    using proxyExcludesOf_idem [of "excludeCandidates c firstIP" "ProxyExcludes p0"]
      excludeCandidates_nonempty [of _ c firstIP]
    by (simp add: p)
  show ?thesis
    unfolding assignProxy_eq [of env c']
    using pc inc by (simp add: c' cands [unfolded c'] idem)
qed

theorem assignProxy_idempotent_witness:
  "assignProxy exEnv (exCluster ''example.org'')
     = (Inr (Some \<lparr>ProxyExcludes = exExcludes\<rparr>), exCluster exExcludes) \<and>
   assignProxy exEnv (exCluster exExcludes)
     = (Inr (Some \<lparr>ProxyExcludes = exExcludes\<rparr>), exCluster exExcludes)"
  using assignProxy_idempotent [OF ex_assignProxy] ex_assignProxy by simp

subsection \<open>PerformAssignments\<close>

lemma networkCIDRFromVPC_set:
  "NetworkCIDR (Spec c) \<noteq> [] \<Longrightarrow> networkCIDRFromVPC env cloud c = (None, c)"
  by (simp add: networkCIDRFromVPC_def)

lemma assignDefaults_set:
  "NetworkCIDR (Spec c) \<noteq> [] \<Longrightarrow> NonMasqueradeCIDR (Spec c) \<noteq> [] \<Longrightarrow>
   MasterPublicName (Spec c) \<noteq> [] \<Longrightarrow> Topology (Spec c) \<noteq> None \<Longrightarrow>
   assignDefaults env c = c"
  by (simp add: assignDefaults_def)

lemma ensureKubernetesVersion_set:
  "KubernetesVersion (Spec c) \<noteq> [] \<Longrightarrow> ensureKubernetesVersion env c = (None, c)"
  by (simp add: ensureKubernetesVersion_def versionFromChannel_def)

lemma assignProxy_frame:
  "assignProxy env c = (r, c') \<Longrightarrow> \<exists>ep. c' = c\<lparr>Spec := (Spec c)\<lparr>EgressProxy := ep\<rparr>\<rparr>"
proof -
  assume a: "assignProxy env c = (r, c')"
  have same: "c = c\<lparr>Spec := (Spec c)\<lparr>EgressProxy := EgressProxy (Spec c)\<rparr>\<rparr>" by simp
  show ?thesis
  proof (cases "EgressProxy (Spec c)")
    case None
    with a have "c' = c" by (simp add: assignProxy_eq)
    with same show ?thesis by metis
  next
    case (Some p0)
    show ?thesis
    proof (cases "ParseCIDR env (NonMasqueradeCIDR (Spec c))")
      case (Inl err)
      with a Some have "c' = c" by (simp add: assignProxy_eq)
      with same show ?thesis by metis
    next
      case (Inr parsed)
      obtain ip ipNet where parsed: "parsed = (ip, ipNet)" by (cases parsed)
      show ?thesis
      proof (cases "incrementIP env ip (NonMasqueradeCIDR (Spec c))")
        case (Inl err)
        with a Some Inr parsed have "c' = c" by (simp add: assignProxy_eq)
        with same show ?thesis by metis
      next
        case inc: (Inr firstIP)
        with a Some Inr parsed show ?thesis by (auto simp: assignProxy_eq)
      qed
    qed
  qed
qed

text \<open>
  C10. When \<open>NetworkCIDR\<close>, \<open>NonMasqueradeCIDR\<close>, \<open>MasterPublicName\<close>, \<open>Topology\<close> and
  \<open>KubernetesVersion\<close> are all set before the call, a successful \<open>PerformAssignments\<close>
  leaves the five as they were. \<open>assignCIDRsToSubnets\<close> is defined in another file of the package: the
  first premise is that it leaves these five fields alone when it succeeds.
\<close>

theorem PerformAssignments_keeps_set_fields:
  assumes frame: "\<And>c0 c1. assignCIDRsToSubnets env c0 = (None, c1) \<Longrightarrow>
        NetworkCIDR (Spec c1) = NetworkCIDR (Spec c0) \<and>
        NonMasqueradeCIDR (Spec c1) = NonMasqueradeCIDR (Spec c0) \<and>
        MasterPublicName (Spec c1) = MasterPublicName (Spec c0) \<and>
        Topology (Spec c1) = Topology (Spec c0) \<and>
        KubernetesVersion (Spec c1) = KubernetesVersion (Spec c0)"
    and set: "NetworkCIDR (Spec c) \<noteq> []" "NonMasqueradeCIDR (Spec c) \<noteq> []"
      "MasterPublicName (Spec c) \<noteq> []" "Topology (Spec c) \<noteq> None"
      "KubernetesVersion (Spec c) \<noteq> []"
    and ok: "PerformAssignments env c = (None, c')"
  shows "NetworkCIDR (Spec c') = NetworkCIDR (Spec c) \<and>
         NonMasqueradeCIDR (Spec c') = NonMasqueradeCIDR (Spec c) \<and>
         MasterPublicName (Spec c') = MasterPublicName (Spec c) \<and>
         Topology (Spec c') = Topology (Spec c) \<and>
         KubernetesVersion (Spec c') = KubernetesVersion (Spec c)"
proof -
  from ok obtain cloud where cloud: "BuildCloud env c = Inr cloud"
    by (cases "BuildCloud env c") (simp_all add: PerformAssignments_def)
  obtain r1 c1 where sub: "assignCIDRsToSubnets env c = (r1, c1)"
    by (cases "assignCIDRsToSubnets env c")
  have pre: "networkCIDRFromVPC env cloud c = (None, c)" "assignDefaults env c = c"
    using set by (simp_all add: networkCIDRFromVPC_set assignDefaults_set)
  from ok cloud pre sub have r1: "r1 = None"
    by (cases r1) (simp_all add: PerformAssignments_def)
  obtain r2 c2 where prox: "assignProxy env c1 = (r2, c2)"
    by (cases "assignProxy env c1")
  from ok cloud pre sub r1 prox obtain ep where r2: "r2 = Inr ep"
    by (cases r2) (simp_all add: PerformAssignments_def)
  from assignProxy_frame [OF prox] obtain ep2
    where c2: "c2 = c1\<lparr>Spec := (Spec c1)\<lparr>EgressProxy := ep2\<rparr>\<rparr>" by blast
  let ?c3 = "c2\<lparr>Spec := (Spec c2)\<lparr>EgressProxy := ep\<rparr>\<rparr>"
  from ok cloud pre sub r1 prox r2 have fin: "ensureKubernetesVersion env ?c3 = (None, c')"
    by (simp add: PerformAssignments_def)
  from frame [OF sub [unfolded r1]] have f1:
    "NetworkCIDR (Spec c1) = NetworkCIDR (Spec c)"
    "NonMasqueradeCIDR (Spec c1) = NonMasqueradeCIDR (Spec c)"
    "MasterPublicName (Spec c1) = MasterPublicName (Spec c)"
    "Topology (Spec c1) = Topology (Spec c)"
    "KubernetesVersion (Spec c1) = KubernetesVersion (Spec c)"
    by simp_all
  have "KubernetesVersion (Spec ?c3) \<noteq> []"
    using set f1 by (simp add: c2)
  from ensureKubernetesVersion_set [OF this, of env] fin have "c' = ?c3" by simp
  with f1 show ?thesis by (simp add: c2)
qed

theorem PerformAssignments_keeps_set_fields_witness:
  "PerformAssignments exEnv (exCluster ''example.org'') = (None, exCluster exExcludes) \<and>
   NetworkCIDR (Spec (exCluster exExcludes)) = NetworkCIDR (Spec (exCluster ''example.org'')) \<and>
   NonMasqueradeCIDR (Spec (exCluster exExcludes)) = NonMasqueradeCIDR (Spec (exCluster ''example.org'')) \<and>
   MasterPublicName (Spec (exCluster exExcludes)) = MasterPublicName (Spec (exCluster ''example.org'')) \<and>
   Topology (Spec (exCluster exExcludes)) = Topology (Spec (exCluster ''example.org'')) \<and>
   KubernetesVersion (Spec (exCluster exExcludes)) = KubernetesVersion (Spec (exCluster ''example.org''))"
proof -
  have ok: "PerformAssignments exEnv (exCluster ''example.org'') = (None, exCluster exExcludes)"
    by code_simp
  have frame: "assignCIDRsToSubnets exEnv c0 = (None, c1) \<Longrightarrow>
        NetworkCIDR (Spec c1) = NetworkCIDR (Spec c0) \<and>
        NonMasqueradeCIDR (Spec c1) = NonMasqueradeCIDR (Spec c0) \<and>
        MasterPublicName (Spec c1) = MasterPublicName (Spec c0) \<and>
        Topology (Spec c1) = Topology (Spec c0) \<and>
        KubernetesVersion (Spec c1) = KubernetesVersion (Spec c0)" for c0 c1
    by (simp add: exEnv_def)
  have set: "NetworkCIDR (Spec (exCluster ''example.org'')) \<noteq> []"
    "NonMasqueradeCIDR (Spec (exCluster ''example.org'')) \<noteq> []"
    "MasterPublicName (Spec (exCluster ''example.org'')) \<noteq> []"
    "Topology (Spec (exCluster ''example.org'')) \<noteq> None"
    "KubernetesVersion (Spec (exCluster ''example.org'')) \<noteq> []"
    by (simp_all add: exCluster_def)
  from PerformAssignments_keeps_set_fields [OF frame set ok] ok show ?thesis by simp
qed

end
